theory Spec2Isabelle
  imports Complex_Main "HOL-Library.Char_ord" "HOL-Library.List_Lexorder" "HOL-Library.Multiset"
    "HOL-Library.Sublist"
begin

section \<open>Risk tiers (pages/01_Prediction.py)\<close>

text \<open>
  The prediction page turns the positive-class probability into a risk tier in three
  places, each with the same chain \<^verbatim>\<open>if p < 0.3 ... elif p < 0.7 ... else\<close>:
  after a single prediction (lines 511-522), when the cached result is shown again
  (lines 605-616), and for every row of a batch (lines 695-700).

  The single-student path passes one of the keys \<^verbatim>\<open>low_risk\<close>,
  \<^verbatim>\<open>medium_risk\<close>, \<^verbatim>\<open>high_risk\<close> to \<^verbatim>\<open>get_text\<close>; the key names the tier.
  The batch path writes the English label directly. The probability is a Python float;
  it is modelled as a real number and the literals 0.3 and 0.7 as the thresholds they
  denote, so the model speaks about the order of the values, not about rounding.
\<close>

datatype text_key = low_risk | medium_risk | high_risk

definition risk_level_single :: "real \<Rightarrow> text_key" where
  "risk_level_single prediction_prob =
     (if prediction_prob < 0.3 then low_risk
      else if prediction_prob < 0.7 then medium_risk
      else high_risk)"

definition risk_color_single :: "real \<Rightarrow> string" where
  "risk_color_single prediction_prob =
     (if prediction_prob < 0.3 then ''var(--success-green)''
      else if prediction_prob < 0.7 then ''var(--warning-orange)''
      else ''var(--danger-red)'')"

definition risk_level_batch :: "real \<Rightarrow> string" where
  "risk_level_batch prediction_prob =
     (if prediction_prob < 0.3 then ''Low Risk''
      else if prediction_prob < 0.7 then ''Medium Risk''
      else ''High Risk'')"

text \<open>The English label of a tier, as the batch path spells it.\<close>

fun tier_label :: "text_key \<Rightarrow> string" where
  "tier_label low_risk = ''Low Risk''"
| "tier_label medium_risk = ''Medium Risk''"
| "tier_label high_risk = ''High Risk''"

section \<open>Input validation and the predict button (pages/01_Prediction.py)\<close>

text \<open>
  \<^verbatim>\<open>validate_inputs\<close> (lines 120-137) runs six independent range checks and appends
  one message per failed check, in field order. The form delivers integers.
\<close>

definition validate_inputs :: "int \<Rightarrow> int \<Rightarrow> int \<Rightarrow> int \<Rightarrow> int \<Rightarrow> int \<Rightarrow> string list" where
  "validate_inputs math_score reading_score writing_score attendance behavior literacy =
     (if \<not> (0 \<le> math_score \<and> math_score \<le> 100)
        then [''Math score must be between 0 and 100''] else []) @
     (if \<not> (0 \<le> reading_score \<and> reading_score \<le> 100)
        then [''Reading score must be between 0 and 100''] else []) @
     (if \<not> (0 \<le> writing_score \<and> writing_score \<le> 100)
        then [''Writing score must be between 0 and 100''] else []) @
     (if \<not> (0 \<le> attendance \<and> attendance \<le> 100)
        then [''Attendance must be between 0 and 100%''] else []) @
     (if \<not> (1 \<le> behavior \<and> behavior \<le> 5)
        then [''Behavior rating must be between 1 and 5''] else []) @
     (if \<not> (1 \<le> literacy \<and> literacy \<le> 10)
        then [''Literacy level must be between 1 and 10''] else [])"

record student_data =
  math_score :: int
  reading_score :: int
  writing_score :: int
  attendance :: int
  behavior :: int
  literacy :: int

text \<open>
  The handler of the predict button (lines 467-578). \<^verbatim>\<open>make_prediction\<close> lives in
  \<^verbatim>\<open>utils/model_utils.py\<close>, which is not part of the sources at hand, so it is a
  parameter: it returns the label and the probability, or raises (\<open>Inl\<close> with the
  exception text). The handler's result is what the page shows together with the list of
  arguments \<^verbatim>\<open>make_prediction\<close> was called with.
\<close>

datatype predict_outcome =
    Errors_shown "string list"
  | Result_shown int real text_key
  | Prediction_failed string

definition on_predict ::
  "(student_data \<Rightarrow> string + int \<times> real) \<Rightarrow> int \<Rightarrow> int \<Rightarrow> int \<Rightarrow> int \<Rightarrow> int \<Rightarrow> int
     \<Rightarrow> predict_outcome \<times> student_data list" where
  "on_predict make_prediction m r w a b l =
     (let errors = validate_inputs m r w a b l in
      if errors \<noteq> [] then (Errors_shown errors, [])
      else
        let sd = \<lparr>math_score = m, reading_score = r, writing_score = w,
                  attendance = a, behavior = b, literacy = l\<rparr> in
        (case make_prediction sd of
           Inl e \<Rightarrow> (Prediction_failed e, [sd])
         | Inr (prediction, prediction_prob) \<Rightarrow>
             (Result_shown prediction prediction_prob (risk_level_single prediction_prob), [sd])))"

section \<open>Batch upload (pages/01_Prediction.py)\<close>

text \<open>
  The uploaded table is a pandas data frame: the labels of its rows, its column names
  and its rows, each a dictionary from column name to cell. A cell is an integer, a
  float or a text; missing values (NaN) and boolean columns are not modelled.
  \<^verbatim>\<open>pd.read_csv\<close> numbers the rows 0, 1, 2, ... unless the header has one field fewer
  than the lines below it; then the first field of every line becomes the row's label.
\<close>

datatype cell = IntCell int | FloatCell real | TextCell string

type_synonym row = "string \<rightharpoonup> cell"

record data_frame =
  index :: "cell list"
  columns :: "string list"
  rows :: "row list"

definition required_columns :: "string list" where
  "required_columns =
     [''math_score'', ''reading_score'', ''writing_score'', ''attendance'', ''behavior'', ''literacy'']"

definition missing_columns :: "data_frame \<Rightarrow> string list" where
  "missing_columns df = filter (\<lambda>col. col \<notin> set (columns df)) required_columns"

text \<open>Python's \<^verbatim>\<open>', '.join(xs)\<close>.\<close>

fun join_comma :: "string list \<Rightarrow> string" where
  "join_comma [] = []"
| "join_comma [x] = x"
| "join_comma (x # y # ys) = x @ '', '' @ join_comma (y # ys)"

text \<open>
  \<^verbatim>\<open>df.iterrows()\<close> hands every row over with the frame's common dtype: when no column
  holds text and some column holds floats, that dtype is float64 and every integer
  arrives as the float of the same value (75 as 75.0); otherwise the cells arrive as
  they are. \<^verbatim>\<open>row.to_dict()\<close> is the row so delivered.
\<close>

fun to_float :: "cell \<Rightarrow> cell" where
  "to_float (IntCell n) = FloatCell (of_int n)"
| "to_float (FloatCell x) = FloatCell x"
| "to_float (TextCell s) = TextCell s"

definition common_float :: "data_frame \<Rightarrow> bool" where
  "common_float df \<longleftrightarrow>
     list_all (\<lambda>r. list_all (\<lambda>c. case r c of Some (TextCell s) \<Rightarrow> False | _ \<Rightarrow> True) (columns df))
       (rows df) \<and>
     list_ex (\<lambda>r. list_ex (\<lambda>c. case r c of Some (FloatCell x) \<Rightarrow> True | _ \<Rightarrow> False) (columns df))
       (rows df)"

definition series :: "data_frame \<Rightarrow> row \<Rightarrow> row" where
  "series df r = (if common_float df then (\<lambda>c. map_option to_float (r c)) else r)"

definition iterrows :: "data_frame \<Rightarrow> (cell \<times> row) list" where
  "iterrows df = zip (index df) (map (series df) (rows df))"

text \<open>
  \<^verbatim>\<open>idx + 1\<close> for a row label: a number for a numeric label, a TypeError (\<open>None\<close>) for
  a text. \<^verbatim>\<open>number\<close> reads a numeric cell.
\<close>

fun plus_one :: "cell \<Rightarrow> cell option" where
  "plus_one (IntCell i) = Some (IntCell (i + 1))"
| "plus_one (FloatCell x) = Some (FloatCell (x + 1))"
| "plus_one (TextCell s) = None"

fun number :: "cell \<Rightarrow> real" where
  "number (IntCell i) = of_int i"
| "number (FloatCell x) = x"
| "number (TextCell s) = 0"

text \<open>
  \<^verbatim>\<open>progress_bar.progress((idx + 1) / len(df))\<close> (line 709): Streamlit accepts a float
  between 0.0 and 1.0 and raises on any other.
\<close>

definition progress_ok :: "cell \<Rightarrow> nat \<Rightarrow> bool" where
  "progress_ok student n \<longleftrightarrow> 0 \<le> number student / real n \<and> number student / real n \<le> 1"

text \<open>
  The dictionary appended for one row (lines 702-707). The row's own entries are
  unpacked last, so they take precedence over the three entries written before them.
  \<^verbatim>\<open>fmt\<close> stands for the format \<^verbatim>\<open>f"{prediction_prob:.1%}"\<close>.
\<close>

definition result_row :: "(real \<Rightarrow> string) \<Rightarrow> cell \<Rightarrow> real \<Rightarrow> row \<Rightarrow> row" where
  "result_row fmt student prediction_prob r =
     [''Student_ID'' \<mapsto> student,
      ''Risk_Level'' \<mapsto> TextCell (risk_level_batch prediction_prob),
      ''Risk_Probability'' \<mapsto> TextCell (fmt prediction_prob)] ++ r"

text \<open>
  The loop over \<^verbatim>\<open>df.iterrows()\<close> (lines 691-712), with \<^verbatim>\<open>n\<close> for \<^verbatim>\<open>len(df)\<close>.
  Inside the \<^verbatim>\<open>try\<close>: the prediction, the result dictionary with \<^verbatim>\<open>idx + 1\<close>, the
  append, the progress bar. The handler reports the row as
  \<^verbatim>\<open>Error processing student {idx + 1}: {e}\<close> and the loop goes on; so a row whose
  prediction raises leaves no result, and a row whose progress value is refused leaves
  its result and a report. With a text label \<^verbatim>\<open>idx + 1\<close> raises in the \<^verbatim>\<open>try\<close> or,
  after a failed prediction, in the handler, and then once more in the handler: that
  TypeError leaves the loop. The loop returns the exception that left it, if any, the
  results, the reports, and the rows \<^verbatim>\<open>make_prediction\<close> was called with, each in row
  order.
\<close>

datatype page_error = Read_csv_raised string | Type_error | Key_error string

datatype report = Prediction_raised cell string | Progress_raised cell

fun batch_loop ::
  "(row \<Rightarrow> string + int \<times> real) \<Rightarrow> (real \<Rightarrow> string) \<Rightarrow> nat \<Rightarrow> (cell \<times> row) list
     \<Rightarrow> page_error option \<times> row list \<times> report list \<times> row list" where
  "batch_loop make_prediction fmt n [] = (None, [], [], [])"
| "batch_loop make_prediction fmt n ((idx, r) # rest) =
     (case plus_one idx of
        None \<Rightarrow> (Some Type_error, [], [], [r])
      | Some student \<Rightarrow>
          let (raised, results, reports, calls) = batch_loop make_prediction fmt n rest in
          (case make_prediction r of
             Inl e \<Rightarrow> (raised, results, Prediction_raised student e # reports, r # calls)
           | Inr (prediction, prediction_prob) \<Rightarrow>
               (raised,
                result_row fmt student prediction_prob r # results,
                (if progress_ok student n then [] else [Progress_raised student]) @ reports,
                r # calls)))"

text \<open>
  The batch branch of \<^verbatim>\<open>main\<close> (lines 672-735). \<^verbatim>\<open>uploaded\<close> is \<open>None\<close> when no
  file was chosen, otherwise what \<^verbatim>\<open>pd.read_csv\<close> gives: the frame, or the text of
  its exception. \<^verbatim>\<open>process\<close> tells whether the process button was pressed. The icon
  markup in front of a message is left out. After the loop the page reads
  \<^verbatim>\<open>results_df['Risk_Level']\<close>; with no results the frame has no such column and the
  lookup raises a KeyError. Whatever leaves the inner code is reported by the outer
  handler as an error reading the file, and no download is offered. The second
  component lists the rows \<^verbatim>\<open>make_prediction\<close> was called with.
\<close>

datatype batch_outcome =
    No_upload
  | Error_reading_file page_error
  | Missing_required_columns string
  | Preview
  | Download "row list" "report list"

definition on_batch ::
  "(row \<Rightarrow> string + int \<times> real) \<Rightarrow> (real \<Rightarrow> string) \<Rightarrow> (string + data_frame) option \<Rightarrow> bool
     \<Rightarrow> batch_outcome \<times> row list" where
  "on_batch make_prediction fmt uploaded process =
     (case uploaded of
        None \<Rightarrow> (No_upload, [])
      | Some (Inl e) \<Rightarrow> (Error_reading_file (Read_csv_raised e), [])
      | Some (Inr df) \<Rightarrow>
          if missing_columns df \<noteq> []
          then (Missing_required_columns
                  (''Missing required columns: '' @ join_comma (missing_columns df)), [])
          else if \<not> process then (Preview, [])
          else
            let (raised, results, reports, calls) =
                  batch_loop make_prediction fmt (length (rows df)) (iterrows df) in
            (case raised of
               Some e \<Rightarrow> (Error_reading_file e, calls)
             | None \<Rightarrow>
                 if results = [] then (Error_reading_file (Key_error ''Risk_Level''), calls)
                 else (Download results reports, calls)))"


text \<open>
  Reading a rejection back: Python's \<^verbatim>\<open>text.split(', ')\<close>, and the column names
  listed after the fixed beginning of the message.
\<close>

fun split_comma :: "string \<Rightarrow> string \<Rightarrow> string list" where
  "split_comma acc [] = [acc]"
| "split_comma acc [c] = [acc @ [c]]"
| "split_comma acc (c # d # cs) =
     (if c = CHR '','' \<and> d = CHR '' '' then acc # split_comma [] cs
      else split_comma (acc @ [c]) (d # cs))"

fun columns_named :: "batch_outcome \<Rightarrow> string list option" where
  "columns_named (Missing_required_columns msg) =
     (if take 26 msg = ''Missing required columns: '' then Some (split_comma [] (drop 26 msg))
      else None)"
| "columns_named _ = None"

text \<open>
  Sample inputs for the batch branch: a model that raises on a row whose math score is
  a text and otherwise answers label 0 with probability 0.5; a percent format that
  always prints the same text; a row of integers, the same row with an unreadable score,
  and the same row with a fractional attendance; and frames made of them.
\<close>

definition sample_batch_model :: "row \<Rightarrow> string + int \<times> real" where
  "sample_batch_model r =
     (case r ''math_score'' of
        Some (TextCell s) \<Rightarrow> Inl ''could not convert string to float''
      | _ \<Rightarrow> Inr (0, 0.5))"

definition sample_fmt :: "real \<Rightarrow> string" where
  "sample_fmt p = ''50.0%''"

definition good_row :: row where
  "good_row = [''math_score'' \<mapsto> IntCell 75, ''reading_score'' \<mapsto> IntCell 80,
               ''writing_score'' \<mapsto> IntCell 70, ''attendance'' \<mapsto> IntCell 85,
               ''behavior'' \<mapsto> IntCell 3, ''literacy'' \<mapsto> IntCell 6]"

definition bad_row :: row where
  "bad_row = [''math_score'' \<mapsto> TextCell ''n/a'', ''reading_score'' \<mapsto> IntCell 80,
              ''writing_score'' \<mapsto> IntCell 70, ''attendance'' \<mapsto> IntCell 85,
              ''behavior'' \<mapsto> IntCell 3, ''literacy'' \<mapsto> IntCell 6]"


definition two_row_frame :: data_frame where
  "two_row_frame =
     \<lparr>index = [IntCell 0, IntCell 1], columns = required_columns, rows = [good_row, bad_row]\<rparr>"




definition no_behavior_frame :: data_frame where
  "no_behavior_frame =
     \<lparr>index = [IntCell 0],
      columns = [''math_score'', ''reading_score'', ''writing_score'', ''attendance'', ''literacy''],
      rows = [good_row]\<rparr>"

definition three_missing_frame :: data_frame where
  "three_missing_frame =
     \<lparr>index = [IntCell 0],
      columns = [''name'', ''reading_score'', ''attendance'', ''literacy''],
      rows = [good_row]\<rparr>"

section \<open>Recommendations (pages/01_Prediction.py)\<close>





text \<open>The key the single-student path hands to \<^verbatim>\<open>get_text\<close> for a tier.\<close>

fun key_name :: "text_key \<Rightarrow> string" where
  "key_name low_risk = ''low_risk''"
| "key_name medium_risk = ''medium_risk''"
| "key_name high_risk = ''high_risk''"




section \<open>Accounts and login (utils/auth_utils.py)\<close>

text \<open>
  The credentials file \<^verbatim>\<open>data/users.json\<close> is a JSON array of records with the
  fields username, password and role. What \<^verbatim>\<open>_load_users\<close> can find there: no
  file, a file of size 0, a file that decodes to a list of such records, a file that
  \<^verbatim>\<open>json.load\<close> rejects, or a file whose reading raises another exception (with its
  text); in these last two cases the file exists and is not of size 0, so the branch that
  creates it is not entered. Creating the directory and writing the default accounts are
  taken to succeed.
\<close>

record user =
  username :: string
  password :: string
  role :: string

datatype users_file =
    Absent
  | Zero_size
  | Holding "user list"
  | Corrupt
  | Read_error string

definition dummy_users :: "user list" where
  "dummy_users =
     [\<lparr>username = ''teacher1'', password = ''password123'', role = ''teacher''\<rparr>,
      \<lparr>username = ''parent1'', password = ''password123'', role = ''parent''\<rparr>,
      \<lparr>username = ''admin'', password = ''adminpassword'', role = ''admin''\<rparr>]"

text \<open>
  \<^verbatim>\<open>_load_users\<close> (lines 8-31) returns the users; the model also returns the file as
  it is afterwards and the errors written to the page.
\<close>

fun load_users :: "users_file \<Rightarrow> user list \<times> users_file \<times> string list" where
  "load_users Absent = (dummy_users, Holding dummy_users, [])"
| "load_users Zero_size = (dummy_users, Holding dummy_users, [])"
| "load_users (Holding us) = (us, Holding us, [])"
| "load_users Corrupt = ([], Corrupt, [''Error: users.json is corrupt. Please check the file.''])"
| "load_users (Read_error e) = ([], Read_error e, [''Error loading user data: '' @ e])"

text \<open>
  The session state holds the keys \<^verbatim>\<open>authenticated\<close>, \<^verbatim>\<open>username\<close> and
  \<^verbatim>\<open>role\<close>; \<open>None\<close> is a key not set.
\<close>

record session =
  authenticated :: "bool option"
  session_username :: "string option"
  session_role :: "string option"

text \<open>The loop of \<^verbatim>\<open>authenticate_user\<close> (lines 36-41): the first matching record.\<close>

fun matching_user :: "user list \<Rightarrow> string \<Rightarrow> string \<Rightarrow> user option" where
  "matching_user [] name pw = None"
| "matching_user (u # us) name pw =
     (if username u = name \<and> password u = pw then Some u else matching_user us name pw)"

definition authenticate_user ::
  "users_file \<Rightarrow> session \<Rightarrow> string \<Rightarrow> string \<Rightarrow> bool \<times> session \<times> users_file \<times> string list" where
  "authenticate_user file st name pw =
     (let (users, file', shown) = load_users file in
      case matching_user users name pw of
        Some u \<Rightarrow>
          (True,
           st\<lparr>authenticated := Some True, session_username := Some (username u),
              session_role := Some (role u)\<rparr>,
           file', shown)
      | None \<Rightarrow> (False, st\<lparr>authenticated := Some False\<rparr>, file', shown))"

text \<open>
  The submitted login form in \<^verbatim>\<open>render_login_page\<close> (lines 79-84): a welcome with the
  name and role read from the session state, followed by a redirect, or one fixed error.
\<close>

datatype login_message = Welcome "string option" "string option" | Login_error string

definition login_submitted ::
  "users_file \<Rightarrow> session \<Rightarrow> string \<Rightarrow> string
     \<Rightarrow> login_message \<times> session \<times> users_file \<times> string list" where
  "login_submitted file st name pw =
     (let (ok, st', file', shown) = authenticate_user file st name pw in
      if ok then
        (Welcome (session_username st') (session_role st'), st', file', shown)
      else (Login_error ''Invalid username or password.'', st', file', shown))"

section \<open>Record store\<close>

text \<open>
  Modelled from the spec: the record store of \<^verbatim>\<open>utils/data_utils.py\<close>
  (\<^verbatim>\<open>save_prediction_data\<close>, \<^verbatim>\<open>load_student_data\<close>, \<^verbatim>\<open>save_parent_observation\<close>,
  \<^verbatim>\<open>load_parent_observations\<close>), which is not among the sources at hand. The spec: a
  corrupt or unreadable store is treated as empty on read; append loads the existing
  records (or starts an empty collection if the store is absent or unreadable), appends
  the new record and writes the full collection back; a write failure surfaces as an
  error to the caller. \<^verbatim>\<open>write_ok\<close> tells whether the write succeeds.
\<close>

datatype 'r store = Store_absent | Store_unreadable | Store_holding "'r list"

fun load_all :: "'r store \<Rightarrow> 'r list" where
  "load_all Store_absent = []"
| "load_all Store_unreadable = []"
| "load_all (Store_holding rs) = rs"

definition append_record :: "bool \<Rightarrow> 'r \<Rightarrow> 'r store \<Rightarrow> 'r store \<times> string option" where
  "append_record write_ok r s =
     (let records = load_all s @ [r] in
      if write_ok then (Store_holding records, None) else (s, Some ''write failed''))"

section \<open>Observations log (pages/03_Parent_Tracker.py)\<close>

text \<open>
  An observation is a dictionary; the log reads \<^verbatim>\<open>child_name\<close> with \<^verbatim>\<open>get\<close>
  (\<open>None\<close> when the key is missing) and \<^verbatim>\<open>date\<close>, an ISO date text, directly. The
  other fields are the record's extension.
\<close>

record observation =
  child_name :: "string option"
  date :: string

text \<open>
  \<^verbatim>\<open>child_observations.sort(key=lambda x: x['date'], reverse=True)\<close> (line 710): a
  descending stable sort, which Python runs as reverse, stable ascending sort, reverse.
  The dates are compared as texts.
\<close>

definition sort_by_date_desc :: "'a observation_scheme list \<Rightarrow> 'a observation_scheme list" where
  "sort_by_date_desc obs = rev (sort_key date (rev obs))"

text \<open>
  The loop over the first 20 (lines 720-725). \<^verbatim>\<open>date.fromisoformat\<close> is a parameter
  and gives \<open>None\<close> where it raises; the exception ends the page, with the expanders shown
  so far, and the model keeps the date text it was raised on. Writing an expander is
  taken to succeed. An observation whose date differs from a set date filter is skipped.
\<close>

fun render_log ::
  "(string \<Rightarrow> 'd option) \<Rightarrow> 'd option \<Rightarrow> 'a observation_scheme list
     \<Rightarrow> 'a observation_scheme list \<times> string option" where
  "render_log fromisoformat date_filter [] = ([], None)"
| "render_log fromisoformat date_filter (obs # rest) =
     (case fromisoformat (date obs) of
        None \<Rightarrow> ([], Some (date obs))
      | Some obs_date \<Rightarrow>
          if date_filter \<noteq> None \<and> Some obs_date \<noteq> date_filter
          then render_log fromisoformat date_filter rest
          else
            let (shown, err) = render_log fromisoformat date_filter rest in
            (obs # shown, err))"

text \<open>
  The log branch of \<^verbatim>\<open>main\<close> (lines 695-760): the observations of the child, an
  alert if there are none, otherwise the expanders of the loop.
\<close>

datatype 'o log_view = No_observations | Log_shown "'o list" "string option"

definition observations_log ::
  "(string \<Rightarrow> 'd option) \<Rightarrow> string \<Rightarrow> 'd option \<Rightarrow> 'a observation_scheme list
     \<Rightarrow> 'a observation_scheme log_view" where
  "observations_log fromisoformat child date_filter all_observations =
     (let child_observations = filter (\<lambda>obs. child_name obs = Some child) all_observations in
      if child_observations = [] then No_observations
      else
        let sorted_observations = sort_by_date_desc child_observations;
            (shown, err) = render_log fromisoformat date_filter (take 20 sorted_observations)
        in Log_shown shown err)"

text \<open>
  Sample inputs: a session with nothing set; a date parser that accepts every text; 22
  daily observations of one child, oldest first, after one of another child and one
  without a name; and the 20 newest of the 22, newest first.
\<close>

definition fresh_session :: session where
  "fresh_session = \<lparr>authenticated = None, session_username = None, session_role = None\<rparr>"

definition sample_fromisoformat :: "string \<Rightarrow> string option" where
  "sample_fromisoformat s = Some s"

definition ann_on :: "string \<Rightarrow> observation" where
  "ann_on d = \<lparr>child_name = Some ''Ann'', date = d\<rparr>"

definition sample_observations :: "observation list" where
  "sample_observations =
     \<lparr>child_name = Some ''Bob'', date = ''2024-02-01''\<rparr> #
     \<lparr>child_name = None, date = ''2024-02-02''\<rparr> #
     map ann_on
       [''2024-01-01'', ''2024-01-02'', ''2024-01-03'', ''2024-01-04'', ''2024-01-05'',
        ''2024-01-06'', ''2024-01-07'', ''2024-01-08'', ''2024-01-09'', ''2024-01-10'',
        ''2024-01-11'', ''2024-01-12'', ''2024-01-13'', ''2024-01-14'', ''2024-01-15'',
        ''2024-01-16'', ''2024-01-17'', ''2024-01-18'', ''2024-01-19'', ''2024-01-20'',
        ''2024-01-21'', ''2024-01-22'']"

definition sample_shown :: "observation list" where
  "sample_shown = map ann_on
       [''2024-01-22'', ''2024-01-21'', ''2024-01-20'', ''2024-01-19'', ''2024-01-18'',
        ''2024-01-17'', ''2024-01-16'', ''2024-01-15'', ''2024-01-14'', ''2024-01-13'',
        ''2024-01-12'', ''2024-01-11'', ''2024-01-10'', ''2024-01-09'', ''2024-01-08'',
        ''2024-01-07'', ''2024-01-06'', ''2024-01-05'', ''2024-01-04'', ''2024-01-03'']"

section \<open>Properties\<close>

text \<open>
  Claim C1. Every probability gets exactly one tier: low below 0.30, high from 0.70 on,
  medium in between; 0.30 itself is medium and 0.70 itself is high. The batch path
  assigns the tier the single-student path assigns.
\<close>

theorem risk_tier_thresholds:
  "(risk_level_single p = low_risk \<longleftrightarrow> p < 0.3) \<and>
   (risk_level_single p = high_risk \<longleftrightarrow> 0.7 \<le> p) \<and>
   (risk_level_single p = medium_risk \<longleftrightarrow> 0.3 \<le> p \<and> p < 0.7) \<and>
   (risk_level_batch p = ''Low Risk'' \<longleftrightarrow> p < 0.3) \<and>
   (risk_level_batch p = ''High Risk'' \<longleftrightarrow> 0.7 \<le> p) \<and>
   (risk_level_batch p = ''Medium Risk'' \<longleftrightarrow> 0.3 \<le> p \<and> p < 0.7) \<and>
   risk_level_single 0.3 = medium_risk \<and> risk_level_single 0.7 = high_risk \<and>
   risk_level_batch 0.3 = ''Medium Risk'' \<and> risk_level_batch 0.7 = ''High Risk'' \<and>
   risk_level_batch p = tier_label (risk_level_single p)"
  by (simp add: risk_level_single_def risk_level_batch_def)

text \<open>
  Claim C2. The validator returns no message exactly when all six fields are in range:
  the three scores and the attendance in 0..100, the behavior in 1..5, the literacy in
  1..10. Each field out of range contributes its own message, once, whatever the other
  fields are. When there is a message, the predict handler shows the whole list and does
  not call the model.
\<close>

theorem validate_inputs_complete:
  "(validate_inputs m r w a b l = [] \<longleftrightarrow>
      0 \<le> m \<and> m \<le> 100 \<and> 0 \<le> r \<and> r \<le> 100 \<and> 0 \<le> w \<and> w \<le> 100 \<and>
      0 \<le> a \<and> a \<le> 100 \<and> 1 \<le> b \<and> b \<le> 5 \<and> 1 \<le> l \<and> l \<le> 10) \<and>
   (''Math score must be between 0 and 100'' \<in> set (validate_inputs m r w a b l)
      \<longleftrightarrow> \<not> (0 \<le> m \<and> m \<le> 100)) \<and>
   (''Reading score must be between 0 and 100'' \<in> set (validate_inputs m r w a b l)
      \<longleftrightarrow> \<not> (0 \<le> r \<and> r \<le> 100)) \<and>
   (''Writing score must be between 0 and 100'' \<in> set (validate_inputs m r w a b l)
      \<longleftrightarrow> \<not> (0 \<le> w \<and> w \<le> 100)) \<and>
   (''Attendance must be between 0 and 100%'' \<in> set (validate_inputs m r w a b l)
      \<longleftrightarrow> \<not> (0 \<le> a \<and> a \<le> 100)) \<and>
   (''Behavior rating must be between 1 and 5'' \<in> set (validate_inputs m r w a b l)
      \<longleftrightarrow> \<not> (1 \<le> b \<and> b \<le> 5)) \<and>
   (''Literacy level must be between 1 and 10'' \<in> set (validate_inputs m r w a b l)
      \<longleftrightarrow> \<not> (1 \<le> l \<and> l \<le> 10)) \<and>
   distinct (validate_inputs m r w a b l) \<and>
   (validate_inputs m r w a b l \<noteq> [] \<longrightarrow>
      on_predict make_prediction m r w a b l = (Errors_shown (validate_inputs m r w a b l), []))"
proof -
  have empty: "validate_inputs m r w a b l = [] \<longleftrightarrow>
      0 \<le> m \<and> m \<le> 100 \<and> 0 \<le> r \<and> r \<le> 100 \<and> 0 \<le> w \<and> w \<le> 100 \<and>
      0 \<le> a \<and> a \<le> 100 \<and> 1 \<le> b \<and> b \<le> 5 \<and> 1 \<le> l \<and> l \<le> 10"
    by (simp add: validate_inputs_def) blast
  have once: "distinct (validate_inputs m r w a b l)"
    by (simp add: validate_inputs_def)
  have refused: "validate_inputs m r w a b l \<noteq> [] \<longrightarrow>
      on_predict make_prediction m r w a b l = (Errors_shown (validate_inputs m r w a b l), [])"
    by (simp add: on_predict_def Let_def)
  from empty once refused show ?thesis
    by (simp add: validate_inputs_def)
qed

theorem validate_inputs_complete_witness:
  "validate_inputs 75 80 70 150 9 6 \<noteq> [] \<and>
   on_predict (\<lambda>sd. Inr (1, 0.9)) 75 80 70 150 9 6 =
     (Errors_shown [''Attendance must be between 0 and 100%'',
                    ''Behavior rating must be between 1 and 5''], [])"
  using validate_inputs_complete [of 75 80 70 150 9 6 "\<lambda>sd. Inr (1, 0.9)"]
  by (simp add: validate_inputs_def)

text \<open>
  Reading a joined list back gives the list, when no name holds a comma; none of the
  required names does. The model is called for the first row of the loop whatever its
  label.
\<close>

lemma split_comma_append:
  "CHR '','' \<notin> set x \<Longrightarrow> split_comma acc (x @ rest) = split_comma (acc @ x) rest"
proof (induction x arbitrary: acc)
  case Nil
  show ?case by simp
next
  case (Cons c x)
  then have c: "c \<noteq> CHR '',''" and x: "CHR '','' \<notin> set x" by auto
  show ?case
  proof (cases "x @ rest")
    case Nil
    then show ?thesis by simp
  next
    case (Cons d cs)
    have "split_comma acc ((c # x) @ rest) = split_comma (acc @ [c]) (x @ rest)"
      using c Cons by simp
    also have "\<dots> = split_comma ((acc @ [c]) @ x) rest"
      using Cons.IH [OF x] .
    finally show ?thesis by simp
  qed
qed

lemma split_comma_join:
  "\<forall>x \<in> set (x # xs). CHR '','' \<notin> set x \<Longrightarrow>
     split_comma acc (join_comma (x # xs)) = (acc @ x) # xs"
proof (induction xs arbitrary: x acc)
  case Nil
  then show ?case using split_comma_append [of x acc "[]"] by simp
next
  case (Cons y ys)
  then have x: "CHR '','' \<notin> set x" and rest: "\<forall>x \<in> set (y # ys). CHR '','' \<notin> set x"
    by auto
  have "split_comma acc (join_comma (x # y # ys)) =
          split_comma (acc @ x) (CHR '','' # CHR '' '' # join_comma (y # ys))"
    using split_comma_append [OF x, of acc "'', '' @ join_comma (y # ys)"] by simp
  also have "\<dots> = (acc @ x) # split_comma [] (join_comma (y # ys))" by simp
  also have "\<dots> = (acc @ x) # y # ys" using Cons.IH [OF rest, of "[]"] by simp
  finally show ?case .
qed

lemma required_no_comma: "\<forall>x \<in> set required_columns. CHR '','' \<notin> set x"
  by (simp add: required_columns_def)

lemma batch_loop_first:
  "take 1 (snd (snd (snd (batch_loop mk fmt n irs)))) = take 1 (map snd irs)"
proof (cases irs)
  case Nil
  then show ?thesis by simp
next
  case (Cons ir rest)
  obtain idx r where ir: "ir = (idx, r)" by (cases ir)
  obtain raised results reports calls where
    bl: "batch_loop mk fmt n rest = (raised, results, reports, calls)"
    by (cases "batch_loop mk fmt n rest")
  show ?thesis
  proof (cases "plus_one idx")
    case None
    with Cons ir show ?thesis by simp
  next
    case (Some student)
    with Cons ir bl show ?thesis
      by (cases "mk r") (auto split: prod.splits)
  qed
qed

lemma on_batch_calls:
  "missing_columns df = [] \<Longrightarrow>
     snd (on_batch mk fmt (Some (Inr df)) True) =
       snd (snd (snd (batch_loop mk fmt (length (rows df)) (iterrows df))))"
proof -
  assume e: "missing_columns df = []"
  obtain raised results reports calls where
    bl: "batch_loop mk fmt (length (rows df)) (iterrows df) = (raised, results, reports, calls)"
    by (cases "batch_loop mk fmt (length (rows df)) (iterrows df)")
  from e bl show ?thesis
    by (cases raised) (simp_all add: on_batch_def)
qed

text \<open>
  Claim C3. The required columns are math_score, reading_score, writing_score,
  attendance, behavior and literacy. A frame that lacks any of them is rejected: the
  message lists, after its fixed beginning and separated by a comma and a space, exactly
  the required columns that are not among the frame's columns, in the order above, and
  the model is called for no row. A frame that has all six is not rejected: it is
  previewed and, once the process button is pressed, the loop starts and the model is
  called for the first row.
\<close>

theorem missing_columns_rejected:
  "missing_columns df =
     filter (\<lambda>col. col \<notin> set (columns df))
       [''math_score'', ''reading_score'', ''writing_score'', ''attendance'', ''behavior'',
        ''literacy''] \<and>
   (missing_columns df \<noteq> [] \<longrightarrow>
      on_batch make_prediction fmt (Some (Inr df)) process =
        (Missing_required_columns
           (''Missing required columns: '' @ join_comma (missing_columns df)), []) \<and>
      columns_named (fst (on_batch make_prediction fmt (Some (Inr df)) process)) =
        Some (missing_columns df)) \<and>
   (missing_columns df = [] \<longleftrightarrow>
      {''math_score'', ''reading_score'', ''writing_score'', ''attendance'', ''behavior'',
       ''literacy''} \<subseteq> set (columns df)) \<and>
   (missing_columns df = [] \<longrightarrow>
      on_batch make_prediction fmt (Some (Inr df)) False = (Preview, []) \<and>
      columns_named (fst (on_batch make_prediction fmt (Some (Inr df)) process)) = None \<and>
      take 1 (snd (on_batch make_prediction fmt (Some (Inr df)) True)) =
        take 1 (map snd (iterrows df)))"
proof -
  have lit: "missing_columns df =
     filter (\<lambda>col. col \<notin> set (columns df))
       [''math_score'', ''reading_score'', ''writing_score'', ''attendance'', ''behavior'',
        ''literacy'']"
    by (simp only: missing_columns_def required_columns_def)
  have rej: "missing_columns df \<noteq> [] \<longrightarrow>
      on_batch make_prediction fmt (Some (Inr df)) process =
        (Missing_required_columns
           (''Missing required columns: '' @ join_comma (missing_columns df)), [])"
    by (simp add: on_batch_def)
  have named: "missing_columns df \<noteq> [] \<longrightarrow>
      columns_named (fst (on_batch make_prediction fmt (Some (Inr df)) process)) =
        Some (missing_columns df)"
  proof
    assume ne: "missing_columns df \<noteq> []"
    then obtain x xs where m: "missing_columns df = x # xs" by (cases "missing_columns df") auto
    have "set (missing_columns df) \<subseteq> set required_columns"
      by (auto simp add: missing_columns_def)
    with required_no_comma m have "\<forall>x \<in> set (x # xs). CHR '','' \<notin> set x" by auto
    then have "split_comma [] (join_comma (missing_columns df)) = missing_columns df"
      using split_comma_join [of x xs "[]"] m by simp
    with ne show "columns_named (fst (on_batch make_prediction fmt (Some (Inr df)) process)) =
        Some (missing_columns df)"
      by (simp add: on_batch_def)
  qed
  have none: "missing_columns df = [] \<longleftrightarrow>
      {''math_score'', ''reading_score'', ''writing_score'', ''attendance'', ''behavior'',
       ''literacy''} \<subseteq> set (columns df)"
    unfolding lit by (simp add: filter_empty_conv)
  have prev: "missing_columns df = [] \<longrightarrow>
      on_batch make_prediction fmt (Some (Inr df)) False = (Preview, [])"
    by (simp add: on_batch_def)
  have notnamed: "missing_columns df = [] \<longrightarrow>
      columns_named (fst (on_batch make_prediction fmt (Some (Inr df)) process)) = None"
    by (auto simp add: on_batch_def split: prod.splits option.splits)
  have first: "missing_columns df = [] \<longrightarrow>
      take 1 (snd (on_batch make_prediction fmt (Some (Inr df)) True)) =
        take 1 (map snd (iterrows df))"
    using on_batch_calls [of df make_prediction fmt]
      batch_loop_first [of make_prediction fmt "length (rows df)" "iterrows df"]
    by simp
  from lit rej named none prev notnamed first show ?thesis by blast
qed

theorem missing_columns_rejected_witness:
  "missing_columns no_behavior_frame \<noteq> [] \<and>
   on_batch sample_batch_model sample_fmt (Some (Inr no_behavior_frame)) True =
     (Missing_required_columns ''Missing required columns: behavior'', []) \<and>
   missing_columns three_missing_frame \<noteq> [] \<and>
   on_batch sample_batch_model sample_fmt (Some (Inr three_missing_frame)) True =
     (Missing_required_columns ''Missing required columns: math_score, writing_score, behavior'',
      []) \<and>
   columns_named (fst (on_batch sample_batch_model sample_fmt (Some (Inr three_missing_frame)) True))
     = Some [''math_score'', ''writing_score'', ''behavior''] \<and>
   missing_columns two_row_frame = [] \<and>
   on_batch sample_batch_model sample_fmt (Some (Inr two_row_frame)) False = (Preview, []) \<and>
   take 1 (snd (on_batch sample_batch_model sample_fmt (Some (Inr two_row_frame)) True)) =
     [good_row]"
proof -
  have m1: "missing_columns no_behavior_frame = [''behavior'']"
    by (simp add: missing_columns_def required_columns_def no_behavior_frame_def)
  have m3: "missing_columns three_missing_frame = [''math_score'', ''writing_score'', ''behavior'']"
    by (simp add: missing_columns_def required_columns_def three_missing_frame_def)
  have m0: "missing_columns two_row_frame = []"
    by (simp add: missing_columns_def required_columns_def two_row_frame_def)
  have j1: "''Missing required columns: '' @ join_comma [''behavior''] =
      ''Missing required columns: behavior''"
    by simp
  have j3: "''Missing required columns: '' @ join_comma [''math_score'', ''writing_score'', ''behavior''] =
      ''Missing required columns: math_score, writing_score, behavior''"
    by simp
  have it: "take 1 (map snd (iterrows two_row_frame)) = [series two_row_frame good_row]"
    by (simp add: iterrows_def two_row_frame_def)
  have cf: "\<not> common_float two_row_frame"
    by (simp add: common_float_def two_row_frame_def required_columns_def bad_row_def)
  then have sr: "series two_row_frame good_row = good_row"
    by (simp add: series_def)
  note t1 = missing_columns_rejected [of no_behavior_frame sample_batch_model sample_fmt True]
  note t3 = missing_columns_rejected [of three_missing_frame sample_batch_model sample_fmt True]
  note t0 = missing_columns_rejected [of two_row_frame sample_batch_model sample_fmt True]
  have a1: "missing_columns no_behavior_frame \<noteq> []" using m1 by simp
  have a3: "missing_columns three_missing_frame \<noteq> []" using m3 by simp
  from t1 a1 have b1: "on_batch sample_batch_model sample_fmt (Some (Inr no_behavior_frame)) True =
     (Missing_required_columns ''Missing required columns: behavior'', [])"
    unfolding m1 j1 by blast
  from t3 a3 have b3: "on_batch sample_batch_model sample_fmt (Some (Inr three_missing_frame)) True =
     (Missing_required_columns ''Missing required columns: math_score, writing_score, behavior'',
      [])"
    unfolding m3 j3 by blast
  from t3 a3 have c3: "columns_named (fst (on_batch sample_batch_model sample_fmt
      (Some (Inr three_missing_frame)) True)) = Some [''math_score'', ''writing_score'', ''behavior'']"
    unfolding m3 by blast
  from t0 m0 have p0: "on_batch sample_batch_model sample_fmt (Some (Inr two_row_frame)) False =
      (Preview, [])"
    by blast
  from t0 m0 have f0: "take 1 (snd (on_batch sample_batch_model sample_fmt (Some (Inr two_row_frame)) True)) =
     take 1 (map snd (iterrows two_row_frame))"
    by blast
  then have f0': "take 1 (snd (on_batch sample_batch_model sample_fmt (Some (Inr two_row_frame)) True)) =
     [good_row]"
    unfolding it sr .
  from a1 b1 a3 b3 c3 m0 p0 f0' show ?thesis by blast
qed





















text \<open>The loop finds no record exactly when no record has both fields equal.\<close>

lemma matching_user_None:
  "matching_user us name pw = None \<longleftrightarrow> \<not> (\<exists>u \<in> set us. username u = name \<and> password u = pw)"
  by (induction us) auto

lemma authenticate_user_fst:
  "fst (authenticate_user file st name pw) \<longleftrightarrow>
     (\<exists>u \<in> set (fst (load_users file)). username u = name \<and> password u = pw)"
proof -
  obtain users file' shown where l: "load_users file = (users, file', shown)"
    by (cases "load_users file")
  show ?thesis
    using matching_user_None [of users name pw] l
    by (cases "matching_user users name pw") (auto simp add: authenticate_user_def)
qed

lemma login_failed:
  assumes "\<not> fst (authenticate_user file st name pw)"
  shows "login_submitted file st name pw =
       (Login_error ''Invalid username or password.'', st\<lparr>authenticated := Some False\<rparr>,
        fst (snd (load_users file)), snd (snd (load_users file)))"
proof -
  obtain users file' shown where l: "load_users file = (users, file', shown)"
    by (cases "load_users file")
  from assms l have "matching_user users name pw = None"
    by (cases "matching_user users name pw") (auto simp add: authenticate_user_def)
  with l show ?thesis
    by (simp add: login_submitted_def authenticate_user_def)
qed

text \<open>
  Claim C6. \<^verbatim>\<open>authenticate_user\<close> returns True exactly when one of the records read
  from the credentials file has the given username and the given password, compared as
  plain texts. A failed attempt shows the fixed message and sets only the
  \<^verbatim>\<open>authenticated\<close> key: what the page shows and the state it leaves depend on the
  file and the earlier session, not on the name or the password tried, so two failed
  attempts cannot be told apart.
\<close>

theorem authenticate_user_plain_match:
  "(fst (authenticate_user file st name pw) \<longleftrightarrow>
      (\<exists>u \<in> set (fst (load_users file)). username u = name \<and> password u = pw)) \<and>
   (fst (authenticate_user (Holding us) st name pw) \<longleftrightarrow>
      (\<exists>u \<in> set us. username u = name \<and> password u = pw)) \<and>
   (\<not> fst (authenticate_user file st name pw) \<longrightarrow>
      login_submitted file st name pw =
        (Login_error ''Invalid username or password.'', st\<lparr>authenticated := Some False\<rparr>,
         fst (snd (load_users file)), snd (snd (load_users file)))) \<and>
   (\<not> fst (authenticate_user file st name pw) \<and> \<not> fst (authenticate_user file st name' pw') \<longrightarrow>
      login_submitted file st name pw = login_submitted file st name' pw')"
proof (intro conjI impI)
  show "fst (authenticate_user file st name pw) \<longleftrightarrow>
      (\<exists>u \<in> set (fst (load_users file)). username u = name \<and> password u = pw)"
    by (rule authenticate_user_fst)
  show "fst (authenticate_user (Holding us) st name pw) \<longleftrightarrow>
      (\<exists>u \<in> set us. username u = name \<and> password u = pw)"
    using authenticate_user_fst [of "Holding us" st name pw] by simp
next
  assume "\<not> fst (authenticate_user file st name pw)"
  then show "login_submitted file st name pw =
        (Login_error ''Invalid username or password.'', st\<lparr>authenticated := Some False\<rparr>,
         fst (snd (load_users file)), snd (snd (load_users file)))"
    by (rule login_failed)
next
  assume "\<not> fst (authenticate_user file st name pw) \<and> \<not> fst (authenticate_user file st name' pw')"
  then show "login_submitted file st name pw = login_submitted file st name' pw'"
    by (simp add: login_failed)
qed

theorem authenticate_user_plain_match_witness:
  "\<not> fst (authenticate_user (Holding dummy_users) fresh_session ''teacher1'' ''letmein'') \<and>
   \<not> fst (authenticate_user (Holding dummy_users) fresh_session ''nobody'' ''password123'') \<and>
   login_submitted (Holding dummy_users) fresh_session ''teacher1'' ''letmein'' =
     login_submitted (Holding dummy_users) fresh_session ''nobody'' ''password123'' \<and>
   login_submitted (Holding dummy_users) fresh_session ''teacher1'' ''letmein'' =
     (Login_error ''Invalid username or password.'', fresh_session\<lparr>authenticated := Some False\<rparr>,
      Holding dummy_users, [])"
proof -
  have h1: "\<not> fst (authenticate_user (Holding dummy_users) fresh_session ''teacher1'' ''letmein'')"
    by (simp add: authenticate_user_def dummy_users_def)
  have h2: "\<not> fst (authenticate_user (Holding dummy_users) fresh_session ''nobody'' ''password123'')"
    by (simp add: authenticate_user_def dummy_users_def)
  note t = authenticate_user_plain_match [of "Holding dummy_users" fresh_session
      "''teacher1''" "''letmein''" "[]" "''nobody''" "''password123''"]
  from t h1 h2
  have same: "login_submitted (Holding dummy_users) fresh_session ''teacher1'' ''letmein'' =
     login_submitted (Holding dummy_users) fresh_session ''nobody'' ''password123''"
    by blast
  from t h1
  have shown: "login_submitted (Holding dummy_users) fresh_session ''teacher1'' ''letmein'' =
     (Login_error ''Invalid username or password.'', fresh_session\<lparr>authenticated := Some False\<rparr>,
      fst (snd (load_users (Holding dummy_users))), snd (snd (load_users (Holding dummy_users))))"
    by blast
  from h1 h2 same shown show ?thesis by simp
qed

text \<open>
  Claim C7, amended. A users file with content that does not decode, or whose reading
  raises, reads as the empty list: \<^verbatim>\<open>_load_users\<close> returns it with an error on the
  page and raises nothing, the file stays as it is, and every login attempt then fails
  as it does for a file holding no records. These two cases and an empty array are the
  only ones in which the list is empty.
\<close>

theorem unreadable_users_file_is_empty:
  "load_users Corrupt =
     ([], Corrupt, [''Error: users.json is corrupt. Please check the file.'']) \<and>
   load_users (Read_error e) = ([], Read_error e, [''Error loading user data: '' @ e]) \<and>
   authenticate_user Corrupt st name pw =
     (False, st\<lparr>authenticated := Some False\<rparr>, Corrupt,
      [''Error: users.json is corrupt. Please check the file.'']) \<and>
   authenticate_user (Read_error e) st name pw =
     (False, st\<lparr>authenticated := Some False\<rparr>, Read_error e,
      [''Error loading user data: '' @ e]) \<and>
   fst (authenticate_user Corrupt st name pw) = fst (authenticate_user (Holding []) st name pw) \<and>
   fst (authenticate_user (Read_error e) st name pw) =
     fst (authenticate_user (Holding []) st name pw) \<and>
   (fst (load_users f) = [] \<longleftrightarrow>
      f = Corrupt \<or> (\<exists>x. f = Read_error x) \<or> f = Holding [])"
proof -
  have "fst (load_users f) = [] \<longleftrightarrow>
      f = Corrupt \<or> (\<exists>x. f = Read_error x) \<or> f = Holding []"
    by (cases f) (simp_all add: dummy_users_def)
  then show ?thesis by (simp add: authenticate_user_def)
qed

text \<open>
  The claim as stated fails for a file of size 0. It does not decode as JSON either, yet
  it is never decoded: the three default accounts are written over it and returned, and
  the administrator can log in.
\<close>

theorem zero_size_users_file_counterexample:
  "fst (load_users Zero_size) =
     [\<lparr>username = ''teacher1'', password = ''password123'', role = ''teacher''\<rparr>,
      \<lparr>username = ''parent1'', password = ''password123'', role = ''parent''\<rparr>,
      \<lparr>username = ''admin'', password = ''adminpassword'', role = ''admin''\<rparr>] \<and>
   fst (load_users Zero_size) \<noteq> [] \<and>
   fst (snd (load_users Zero_size)) \<noteq> Zero_size \<and>
   fst (authenticate_user Zero_size fresh_session ''admin'' ''adminpassword'') = True"
  by (simp add: dummy_users_def authenticate_user_def)

text \<open>
  Claim C8. On a store that did not exist, appending a record and loading gives exactly
  that record. Appending loads the existing records (none for an absent or unreadable
  store), adds the new record at the end and writes all of them back.
\<close>

theorem append_then_load_all:
  "load_all (fst (append_record True r Store_absent)) = [r] \<and>
   r \<in> set (load_all (fst (append_record True r Store_absent))) \<and>
   load_all Store_absent = [] \<and> load_all Store_unreadable = [] \<and>
   append_record True r s = (Store_holding (load_all s @ [r]), None) \<and>
   load_all (fst (append_record True r s)) = load_all s @ [r]"
  by (simp add: append_record_def)

text \<open>
  Claim C9. When the users file is absent or has size 0, \<^verbatim>\<open>_load_users\<close> writes the
  three default accounts to it and returns them, and \<^verbatim>\<open>authenticate_user\<close> then
  succeeds for exactly their three name and password pairs.
\<close>

theorem fresh_install_default_accounts:
  "load_users Absent = (dummy_users, Holding dummy_users, []) \<and>
   load_users Zero_size = (dummy_users, Holding dummy_users, []) \<and>
   dummy_users =
     [\<lparr>username = ''teacher1'', password = ''password123'', role = ''teacher''\<rparr>,
      \<lparr>username = ''parent1'', password = ''password123'', role = ''parent''\<rparr>,
      \<lparr>username = ''admin'', password = ''adminpassword'', role = ''admin''\<rparr>] \<and>
   (fst (authenticate_user Absent st name pw) \<longleftrightarrow>
      (name, pw) \<in> {(''teacher1'', ''password123''), (''parent1'', ''password123''),
                     (''admin'', ''adminpassword'')}) \<and>
   (fst (authenticate_user Zero_size st name pw) \<longleftrightarrow>
      (name, pw) \<in> {(''teacher1'', ''password123''), (''parent1'', ''password123''),
                     (''admin'', ''adminpassword'')})"
proof -
  have a: "fst (authenticate_user Absent st name pw) \<longleftrightarrow>
      (name, pw) \<in> {(''teacher1'', ''password123''), (''parent1'', ''password123''),
                     (''admin'', ''adminpassword'')}"
    unfolding authenticate_user_fst by (simp add: dummy_users_def) blast
  have z: "fst (authenticate_user Zero_size st name pw) \<longleftrightarrow>
      (name, pw) \<in> {(''teacher1'', ''password123''), (''parent1'', ''password123''),
                     (''admin'', ''adminpassword'')}"
    unfolding authenticate_user_fst by (simp add: dummy_users_def) blast
  from a z show ?thesis by (simp add: dummy_users_def)
qed

text \<open>
  The loop shows a subsequence of what it is given, and the sort gives a rearrangement
  of the child's observations in descending date order.
\<close>

lemma render_log_subseq: "subseq (fst (render_log f d xs)) xs"
proof (induction xs)
  case Nil
  show ?case by simp
next
  case (Cons x xs)
  show ?case
  proof (cases "f (date x)")
    case None
    then show ?thesis by simp
  next
    case (Some obs_date)
    with Cons show ?thesis
      by (cases "render_log f d xs") (auto simp del: not_None_eq)
  qed
qed

lemma sort_by_date_desc_sorted:
  "sorted_wrt (\<lambda>a b. date b \<le> date a) (sort_by_date_desc xs)"
proof -
  have "sorted (map date (sort_key date (rev xs)))" by simp
  then have "sorted_wrt (\<lambda>a b. date a \<le> date b) (sort_key date (rev xs))"
    by (simp add: sorted_map)
  then show ?thesis
    unfolding sort_by_date_desc_def by (simp add: sorted_wrt_rev)
qed

lemma sort_by_date_desc_mset: "mset (sort_by_date_desc xs) = mset xs"
  by (simp add: sort_by_date_desc_def)

lemma sorted_wrt_take_drop:
  assumes "sorted_wrt R xs"
  shows "\<forall>x \<in> set (take n xs). \<forall>y \<in> set (drop n xs). R x y"
proof -
  have "sorted_wrt R (take n xs @ drop n xs)" using assms by simp
  then show ?thesis unfolding sorted_wrt_append by blast
qed

text \<open>
  Claim C10. The observations log shows at most 20 observations of the selected child.
  The child's observations are sorted by date, newest first, and what is shown is taken,
  in that order, from the first 20 of the sorted list: no observation shown is older
  than one beyond the first 20, however many there are.
\<close>

theorem observations_log_latest_20:
  assumes "observations_log fromisoformat child date_filter all_observations = Log_shown shown err"
  shows "length shown \<le> 20 \<and>
     subseq shown
       (take 20 (sort_by_date_desc (filter (\<lambda>obs. child_name obs = Some child) all_observations))) \<and>
     sorted_wrt (\<lambda>a b. date b \<le> date a)
       (sort_by_date_desc (filter (\<lambda>obs. child_name obs = Some child) all_observations)) \<and>
     mset (sort_by_date_desc (filter (\<lambda>obs. child_name obs = Some child) all_observations)) =
       mset (filter (\<lambda>obs. child_name obs = Some child) all_observations) \<and>
     (\<forall>x \<in> set shown.
        \<forall>y \<in> set (drop 20
            (sort_by_date_desc (filter (\<lambda>obs. child_name obs = Some child) all_observations))).
          date y \<le> date x)"
proof -
  define cs where "cs = filter (\<lambda>obs. child_name obs = Some child) all_observations"
  define top where "top = take 20 (sort_by_date_desc cs)"
  from assms have ne: "cs \<noteq> []"
    by (auto simp add: observations_log_def cs_def Let_def split: if_splits)
  from assms ne have sh: "shown = fst (render_log fromisoformat date_filter top)"
    by (auto simp add: observations_log_def cs_def top_def Let_def split: prod.splits)
  have sub: "subseq shown top" unfolding sh by (rule render_log_subseq)
  then have "length shown \<le> length top" by (rule list_emb_length)
  then have len: "length shown \<le> 20" by (simp add: top_def)
  have srt: "sorted_wrt (\<lambda>a b. date b \<le> date a) (sort_by_date_desc cs)"
    by (rule sort_by_date_desc_sorted)
  have prm: "mset (sort_by_date_desc cs) = mset cs"
    by (rule sort_by_date_desc_mset)
  have "set shown \<subseteq> set top"
    using sub by (auto dest: list_emb_set)
  with sorted_wrt_take_drop [OF srt, of 20]
  have newest: "\<forall>x \<in> set shown. \<forall>y \<in> set (drop 20 (sort_by_date_desc cs)). date y \<le> date x"
    unfolding top_def by blast
  from len sub srt prm newest show ?thesis
    unfolding top_def cs_def by blast
qed

theorem observations_log_latest_20_witness:
  "observations_log sample_fromisoformat ''Ann'' None sample_observations =
     Log_shown sample_shown None \<and>
   length sample_shown \<le> 20 \<and>
   subseq sample_shown
     (take 20
        (sort_by_date_desc (filter (\<lambda>obs. child_name obs = Some ''Ann'') sample_observations)))"
proof -
  have h: "observations_log sample_fromisoformat ''Ann'' None sample_observations =
     Log_shown sample_shown None"
    by code_simp
  from h observations_log_latest_20 [OF h] show ?thesis by blast
qed

end
